theory Spec2Isabelle
  imports Complex_Main "HOL-Library.Sublist" "HOL-Library.Log_Nat"
begin

section \<open>Values of the interpreter\<close>

text \<open>
  The script \<^verbatim>\<open>scripts/import_sri_lankan_cities.py\<close> works on the value that
  \<^verbatim>\<open>json.load\<close> returns. A float is an IEEE double: a finite double is identified with the
  rational number it denotes (the two zeros coincide, the script only compares them to
  \<^verbatim>\<open>0\<close>), and the three special values are constructors of their own. A \<^verbatim>\<open>dict\<close> is an
  association list in insertion order, read with \<^const>\<open>map_of\<close>. A \<^verbatim>\<open>str\<close> is a
  \<^typ>\<open>string\<close>; the script only compares, concatenates and searches strings for the
  ASCII apostrophe, which reads the same on code points and on UTF-8 bytes.
\<close>

datatype pyfloat = Finite rat | PosInf | NegInf | NaN

datatype json =
    JNull
  | JBool bool
  | JInt int
  | JFloat pyfloat
  | JStr string
  | JList "json list"
  | JDict "(string \<times> json) list"

text \<open>The exception classes that the script can meet.\<close>

datatype pyexn =
    AttributeError
  | TypeError
  | ValueError
  | OverflowError
  | KeyError
  | OSError
  | JSONDecodeError

text \<open>
  Three built-ins of the interpreter are not part of the repository and have no short
  definition: parsing a string as a float (\<^verbatim>\<open>float(s)\<close>, \<open>None\<close> when it raises
  \<^verbatim>\<open>ValueError\<close>), printing a float (\<^verbatim>\<open>repr\<close>, which \<^verbatim>\<open>str\<close> and an f-string
  field use), and printing a list or a dict. They are parameters of the model.
\<close>

record runtime =
  float_of_str :: "string \<Rightarrow> pyfloat option"
  repr_float :: "pyfloat \<Rightarrow> string"
  str_container :: "json \<Rightarrow> string"

subsection \<open>Integers as text\<close>

definition digit_char :: "nat \<Rightarrow> char" where
  "digit_char d = ''0123456789'' ! d"

function str_nat :: "nat \<Rightarrow> string" where
  "str_nat n = (if n < 10 then [digit_char n] else str_nat (n div 10) @ [digit_char (n mod 10)])"
  by pat_completeness auto
termination
  by (relation "measure (\<lambda>n. n)") auto

declare str_nat.simps [simp del]

definition str_int :: "int \<Rightarrow> string" where
  "str_int i = (if i < 0 then CHR ''-'' # str_nat (nat (- i)) else str_nat (nat i))"

subsection \<open>Floats\<close>

text \<open>
  \<^verbatim>\<open>float(n)\<close> on an \<^verbatim>\<open>int\<close>: exact up to 53 bits, otherwise rounded to 53 significant
  bits (ties to even); \<^verbatim>\<open>OverflowError\<close> when the result does not fit a double.
\<close>

definition float_of_int :: "int \<Rightarrow> pyexn + pyfloat" where
  "float_of_int n =
     (let a = \<bar>n\<bar>; e = bitlen a in
      if e \<le> 53 then Inr (Finite (of_int n))
      else
        let sh = nat (e - 53);
            q = a div 2 ^ sh;
            r = a mod 2 ^ sh;
            half = 2 ^ (sh - 1);
            q' = (if half < r \<or> (r = half \<and> odd q) then q + 1 else q);
            m = q' * 2 ^ sh
        in if 2 ^ 1024 \<le> m then Inl OverflowError else Inr (Finite (of_int (sgn n * m))))"

text \<open>\<^verbatim>\<open>float(x)\<close> on a value of \<^verbatim>\<open>json.load\<close>.\<close>

fun py_float :: "runtime \<Rightarrow> json \<Rightarrow> pyexn + pyfloat" where
  "py_float rt (JFloat f) = Inr f"
| "py_float rt (JInt n) = float_of_int n"
| "py_float rt (JBool b) = Inr (Finite (if b then 1 else 0))"
| "py_float rt (JStr s) = (case float_of_str rt s of None \<Rightarrow> Inl ValueError | Some f \<Rightarrow> Inr f)"
| "py_float rt JNull = Inl TypeError"
| "py_float rt (JList xs) = Inl TypeError"
| "py_float rt (JDict kvs) = Inl TypeError"

text \<open>Comparison of doubles: every comparison with a NaN is false.\<close>

fun float_eq :: "pyfloat \<Rightarrow> pyfloat \<Rightarrow> bool" where
  "float_eq (Finite x) (Finite y) = (x = y)"
| "float_eq PosInf PosInf = True"
| "float_eq NegInf NegInf = True"
| "float_eq _ _ = False"

fun float_le :: "pyfloat \<Rightarrow> pyfloat \<Rightarrow> bool" where
  "float_le NaN _ = False"
| "float_le _ NaN = False"
| "float_le NegInf _ = True"
| "float_le _ PosInf = True"
| "float_le (Finite x) (Finite y) = (x \<le> y)"
| "float_le _ _ = False"

subsection \<open>Strings and dicts\<close>

text \<open>\<^verbatim>\<open>s.replace(old, new)\<close>: the occurrences of \<open>old\<close> are replaced from the left.\<close>

function py_replace :: "string \<Rightarrow> string \<Rightarrow> string \<Rightarrow> string" where
  "py_replace old new s =
     (if old = [] then new @ concat (map (\<lambda>c. c # new) s)
      else if s = [] then []
      else if prefix old s then new @ py_replace old new (drop (length old) s)
      else hd s # py_replace old new (tl s))"
  by pat_completeness auto
termination
  by (relation "measure (\<lambda>(old, new, s). length s)") auto

declare py_replace.simps [simp del]

text \<open>\<^verbatim>\<open>s.lower()\<close> on ASCII text.\<close>

definition lower_char :: "char \<Rightarrow> char" where
  "lower_char c =
     (case map_of (zip ''ABCDEFGHIJKLMNOPQRSTUVWXYZ'' ''abcdefghijklmnopqrstuvwxyz'') c of
        None \<Rightarrow> c
      | Some l \<Rightarrow> l)"

definition py_lower :: "string \<Rightarrow> string" where
  "py_lower s = map lower_char s"

text \<open>\<^verbatim>\<open>sep.join(xs)\<close>.\<close>

fun py_join :: "string \<Rightarrow> string list \<Rightarrow> string" where
  "py_join sep [] = []"
| "py_join sep [x] = x"
| "py_join sep (x # y # ys) = x @ sep @ py_join sep (y # ys)"

text \<open>
  \<^verbatim>\<open>template.format(**kw)\<close> for a template whose replacement fields are plain names:
  a field without a value raises \<^verbatim>\<open>KeyError\<close>, a brace without its partner raises
  \<^verbatim>\<open>ValueError\<close>.
\<close>

function py_format :: "string \<Rightarrow> (string \<times> string) list \<Rightarrow> pyexn + string" where
  "py_format [] kw = Inr []"
| "py_format (c # cs) kw =
     (if c = CHR ''{'' then
        (if CHR ''}'' \<notin> set cs then Inl ValueError
         else case map_of kw (takeWhile (\<lambda>x. x \<noteq> CHR ''}'') cs) of
                None \<Rightarrow> Inl KeyError
              | Some v \<Rightarrow>
                  (case py_format (tl (dropWhile (\<lambda>x. x \<noteq> CHR ''}'') cs)) kw of
                     Inl e \<Rightarrow> Inl e
                   | Inr r \<Rightarrow> Inr (v @ r)))
      else if c = CHR ''}'' then Inl ValueError
      else (case py_format cs kw of Inl e \<Rightarrow> Inl e | Inr r \<Rightarrow> Inr (c # r)))"
  by pat_completeness auto
termination
  by (relation "measure (\<lambda>(s, kw). length s)")
    (auto simp: less_Suc_eq_le le_diff_conv le_SucI [OF length_dropWhile_le])

text \<open>\<^verbatim>\<open>str(x)\<close> on a value of \<^verbatim>\<open>json.load\<close>, and on a \<^verbatim>\<open>bool\<close>.\<close>

definition str_bool :: "bool \<Rightarrow> string" where
  "str_bool b = (if b then ''True'' else ''False'')"

fun py_str :: "runtime \<Rightarrow> json \<Rightarrow> string" where
  "py_str rt (JStr s) = s"
| "py_str rt JNull = ''None''"
| "py_str rt (JBool b) = str_bool b"
| "py_str rt (JInt n) = str_int n"
| "py_str rt (JFloat f) = repr_float rt f"
| "py_str rt (JList xs) = str_container rt (JList xs)"
| "py_str rt (JDict kvs) = str_container rt (JDict kvs)"

text \<open>
  \<^verbatim>\<open>x.get(key, default)\<close>: only a dict has the method, every other value raises
  \<^verbatim>\<open>AttributeError\<close>.
\<close>

fun py_get :: "json \<Rightarrow> string \<Rightarrow> json \<Rightarrow> pyexn + json" where
  "py_get (JDict kvs) k d = Inr (case map_of kvs k of None \<Rightarrow> d | Some v \<Rightarrow> v)"
| "py_get _ k d = Inl AttributeError"

section \<open>The script\<close>

subsection \<open>What the script prints and what surrounds it\<close>

text \<open>
  One constructor for each \<^verbatim>\<open>print\<close> of the script, with the values it interpolates.
  The lines that \<open>main\<close> prints after a success are one event, and so is its
  failure line.
\<close>

datatype diag =
    ReadingFrom
  | ErrorReading pyexn
  | Loaded nat
  | Skipping "string option"
  | Warning "string option" pyfloat pyfloat
  | ErrorProcessing json pyexn
  | Generated
  | Processed nat
  | ErrorWriting pyexn
  | NotFound
  | SuccessBanner
  | FailureBanner

text \<open>
  The file system and the operating system, as far as the script consults them:
  whether the JSON file exists, whether the output directory can be made, what
  \<^verbatim>\<open>open\<close> and \<^verbatim>\<open>json.load\<close> give (the claims are about a document that is a JSON
  array, so a loaded document is a list), the integer that \<^verbatim>\<open>os.system("date")\<close>
  returns, and whether the output file can be written.
\<close>

record env =
  json_exists :: bool
  mkdir_result :: "pyexn option"
  load_result :: "pyexn + json list"
  date_status :: int
  write_result :: "pyexn option"

text \<open>
  What a call of \<open>generate_sql_migration\<close> leaves behind: its return value (\<open>Inl\<close> for
  an exception that leaves the function), the lines printed, and the text of the output
  file when it was written.
\<close>

record outcome =
  retval :: "pyexn + bool"
  stdout :: "diag list"
  sql_file :: "string option"

text \<open>What a run of the script leaves behind.\<close>

record run =
  exit_status :: int
  printed :: "diag list"
  written :: "string option"

subsection \<open>\<open>clean_value\<close> (lines 12 to 16)\<close>

definition clean_value :: "runtime \<Rightarrow> json \<Rightarrow> string option" where
  "clean_value rt v =
     (if v = JNull \<or> v = JStr ''NULL'' \<or> v = JStr [] then None
      else Some (py_replace [CHR 0x27] [CHR 0x27, CHR 0x27] (py_str rt v)))"

subsection \<open>The fixed texts (lines 33 to 52, 58 to 63, 97 to 131)\<close>

definition sql_template :: string where
  "sql_template =
     ''-- Migration: Import Complete Sri Lankan Cities Dataset\<newline>'' @
     ''-- Source: https://github.com/SKIDDOW/SriLankaCitiesDatabase\<newline>'' @
     ''-- Total Cities: {total_cities}\<newline>'' @
     ''-- Generated: {timestamp}\<newline>'' @
     ''\<newline>'' @
     ''-- Delete existing Sri Lankan cities to avoid duplicates\<newline>'' @
     ''DELETE FROM cities WHERE country = 'Sri Lanka';\<newline>'' @
     ''\<newline>'' @
     ''-- Insert complete Sri Lankan cities dataset\<newline>'' @
     ''INSERT INTO cities (\<newline>'' @
     ''    name,\<newline>'' @
     ''    country,\<newline>'' @
     ''    state,\<newline>'' @
     ''    latitude,\<newline>'' @
     ''    longitude,\<newline>'' @
     ''    population,\<newline>'' @
     ''    is_major_city,\<newline>'' @
     ''    timezone\<newline>'' @
     '') VALUES\<newline>''"

definition major_cities :: "string set" where
  "major_cities =
     {''Colombo'', ''Kandy'', ''Galle'', ''Negombo'', ''Jaffna'', ''Trincomalee'',
      ''Batticaloa'', ''Ratnapura'', ''Anuradhapura'', ''Polonnaruwa'', ''Matara'',
      ''Hambantota'', ''Kurunegala'', ''Puttalam'', ''Badulla'', ''Bandarawela'',
      ''Nuwara Eliya'', ''Dambulla'', ''Sigiriya'', ''Vavuniya'', ''Mannar''}"

definition on_conflict_clause :: string where
  "on_conflict_clause =
     ''\<newline>ON CONFLICT (name, country) DO UPDATE SET\<newline>'' @
     ''    latitude = EXCLUDED.latitude,\<newline>'' @
     ''    longitude = EXCLUDED.longitude,\<newline>'' @
     ''    state = EXCLUDED.state,\<newline>'' @
     ''    population = EXCLUDED.population,\<newline>'' @
     ''    is_major_city = EXCLUDED.is_major_city;\<newline>\<newline>''"

definition verification_queries :: string where
  "verification_queries =
     ''-- Verify import\<newline>'' @
     ''SELECT\<newline>'' @
     ''    COUNT(*) as total_cities,\<newline>'' @
     ''    COUNT(CASE WHEN is_major_city THEN 1 END) as major_cities,\<newline>'' @
     ''    MIN(latitude) as min_lat,\<newline>'' @
     ''    MAX(latitude) as max_lat,\<newline>'' @
     ''    MIN(longitude) as min_lng,\<newline>'' @
     ''    MAX(longitude) as max_lng\<newline>'' @
     ''FROM cities\<newline>'' @
     ''WHERE country = 'Sri Lanka';\<newline>'' @
     ''\<newline>'' @
     ''-- Sample query: Find cities near Colombo (within 50km)\<newline>'' @
     ''SELECT name, latitude, longitude,\<newline>'' @
     ''    ROUND(ST_Distance(\<newline>'' @
     ''        geom,\<newline>'' @
     ''        ST_SetSRID(ST_MakePoint(79.8612, 6.9271), 4326)::geography\<newline>'' @
     ''    ) / 1000, 2) as distance_km\<newline>'' @
     ''FROM cities\<newline>'' @
     ''WHERE country = 'Sri Lanka'\<newline>'' @
     ''    AND ST_DWithin(\<newline>'' @
     ''        geom,\<newline>'' @
     ''        ST_SetSRID(ST_MakePoint(79.8612, 6.9271), 4326)::geography,\<newline>'' @
     ''        50000\<newline>'' @
     ''    )\<newline>'' @
     ''ORDER BY distance_km\<newline>'' @
     ''LIMIT 10;\<newline>''"

subsection \<open>One record (lines 67 to 89)\<close>

text \<open>
  An f-string field holding \<open>name_en\<close>, which is a \<^verbatim>\<open>str\<close> or \<^verbatim>\<open>None\<close>: a \<^verbatim>\<open>None\<close> is
  printed as the text \<^verbatim>\<open>None\<close>.
\<close>

definition format_name :: "string option \<Rightarrow> string" where
  "format_name name_en = (case name_en of None \<Rightarrow> ''None'' | Some s \<Rightarrow> s)"

text \<open>
  Lines 81 to 88: the major-city flag, the population estimate and the tuple. The
  conditional expression of line 82 tests the truth value of \<open>name_en\<close> (neither
  \<^verbatim>\<open>None\<close> nor empty), and \<^verbatim>\<open>population or 'NULL'\<close> of line 88 that of \<open>population\<close>
  (neither \<^verbatim>\<open>None\<close> nor zero).
\<close>

definition city_tuple :: "runtime \<Rightarrow> string option \<Rightarrow> pyfloat \<Rightarrow> pyfloat \<Rightarrow> string" where
  "city_tuple rt name_en latitude longitude =
     (let is_major =
            (case name_en of
               None \<Rightarrow> False
             | Some s \<Rightarrow> if s \<noteq> [] then s \<in> major_cities else False);
          population = (if is_major then Some (100000 :: int) else None);
          population_or_null =
            (case population of
               None \<Rightarrow> ''NULL''
             | Some p \<Rightarrow> if p \<noteq> 0 then str_int p else ''NULL'')
      in ''('' @ [CHR 0x27] @ format_name name_en @ ''', 'Sri Lanka', 'Sri Lanka', '' @
         repr_float rt latitude @ '', '' @ repr_float rt longitude @ '', '' @
         population_or_null @ '', '' @ py_lower (str_bool is_major) @
         '', 'Asia/Colombo')'')"

text \<open>
  The body of the \<^verbatim>\<open>try\<close>: \<open>Inl\<close> is the exception it raises, \<open>Inr\<close> the tuple it
  appends (\<open>None\<close> after the \<^verbatim>\<open>continue\<close> of line 75) with the lines it prints. Every
  exception of the body is raised before its first \<^verbatim>\<open>print\<close>.
\<close>

definition process_city :: "runtime \<Rightarrow> json \<Rightarrow> pyexn + (string option \<times> diag list)" where
  "process_city rt city =
     (case py_get city ''name_en'' JNull of
        Inl e \<Rightarrow> Inl e
      | Inr n \<Rightarrow>
          (let name_en = clean_value rt n in
           case py_get city ''latitude'' (JInt 0) of
             Inl e \<Rightarrow> Inl e
           | Inr la \<Rightarrow>
               (case py_float rt la of
                  Inl e \<Rightarrow> Inl e
                | Inr latitude \<Rightarrow>
                    (case py_get city ''longitude'' (JInt 0) of
                       Inl e \<Rightarrow> Inl e
                     | Inr lo \<Rightarrow>
                         (case py_float rt lo of
                            Inl e \<Rightarrow> Inl e
                          | Inr longitude \<Rightarrow>
                              if float_eq latitude (Finite 0) \<or> float_eq longitude (Finite 0)
                              then Inr (None, [Skipping name_en])
                              else
                                Inr (Some (city_tuple rt name_en latitude longitude),
                                  if \<not> (float_le (Finite (11 / 2)) latitude \<and>
                                         float_le latitude (Finite 10) \<and>
                                         float_le (Finite 79) longitude \<and>
                                         float_le longitude (Finite 82))
                                  then [Warning name_en latitude longitude]
                                  else []))))))"


subsection \<open>The loop (lines 65 to 93)\<close>

text \<open>
  \<open>values\<close> is the list the loop appends to and \<open>out\<close> what has been printed. The
  handler of line 92 reads \<^verbatim>\<open>city.get('id', 'unknown')\<close> outside any \<^verbatim>\<open>try\<close>: when
  that raises, the exception leaves the loop.
\<close>

fun process_cities ::
    "runtime \<Rightarrow> json list \<Rightarrow> string list \<Rightarrow> diag list \<Rightarrow> (pyexn + string list) \<times> diag list"
  where
  "process_cities rt [] values out = (Inr values, out)"
| "process_cities rt (city # rest) values out =
     (case process_city rt city of
        Inr (Some value, ds) \<Rightarrow> process_cities rt rest (values @ [value]) (out @ ds)
      | Inr (None, ds) \<Rightarrow> process_cities rt rest values (out @ ds)
      | Inl e \<Rightarrow>
          (case py_get city ''id'' (JStr ''unknown'') of
             Inl e' \<Rightarrow> (Inl e', out)
           | Inr i \<Rightarrow> process_cities rt rest values (out @ [ErrorProcessing i e])))"


subsection \<open>\<open>generate_sql_migration\<close> (lines 18 to 142) and \<open>main\<close> (lines 144 to 173)\<close>

text \<open>
  What the \<^verbatim>\<open>date\<close> command itself writes goes to the terminal and is not part of
  \<open>stdout\<close>. An exception that leaves the function leaves no file.
\<close>

definition generate_sql_migration :: "runtime \<Rightarrow> env \<Rightarrow> outcome" where
  "generate_sql_migration rt env =
     (case load_result env of
        Inl e \<Rightarrow> \<lparr>retval = Inr False, stdout = [ReadingFrom, ErrorReading e], sql_file = None\<rparr>
      | Inr cities_data \<Rightarrow>
          (case py_format sql_template
                  [(''total_cities'', str_nat (length cities_data)),
                   (''timestamp'', str_int (date_status env))] of
             Inl e \<Rightarrow>
               \<lparr>retval = Inl e, stdout = [ReadingFrom, Loaded (length cities_data)],
                sql_file = None\<rparr>
           | Inr sql_content \<Rightarrow>
               (case process_cities rt cities_data []
                       [ReadingFrom, Loaded (length cities_data)] of
                  (Inl e, out) \<Rightarrow> \<lparr>retval = Inl e, stdout = out, sql_file = None\<rparr>
                | (Inr values, out) \<Rightarrow>
                    (let sql = sql_content @ py_join '',\<newline>'' values @
                               on_conflict_clause @ verification_queries
                     in case write_result env of
                          None \<Rightarrow>
                            \<lparr>retval = Inr True,
                             stdout = out @ [Generated, Processed (length values)],
                             sql_file = Some sql\<rparr>
                        | Some e \<Rightarrow>
                            \<lparr>retval = Inr False, stdout = out @ [ErrorWriting e],
                             sql_file = None\<rparr>))))"

text \<open>
  \<^verbatim>\<open>sys.exit(main())\<close>: the exit status is what \<open>main\<close> returns, and 1 when an exception
  leaves it.
\<close>

definition main :: "runtime \<Rightarrow> env \<Rightarrow> run" where
  "main rt env =
     (if \<not> json_exists env then \<lparr>exit_status = 1, printed = [NotFound], written = None\<rparr>
      else
        case mkdir_result env of
          Some e \<Rightarrow> \<lparr>exit_status = 1, printed = [], written = None\<rparr>
        | None \<Rightarrow>
            (let r = generate_sql_migration rt env in
             case retval r of
               Inl e \<Rightarrow> \<lparr>exit_status = 1, printed = stdout r, written = sql_file r\<rparr>
             | Inr success \<Rightarrow>
                 if success
                 then \<lparr>exit_status = 0, printed = stdout r @ [SuccessBanner],
                       written = sql_file r\<rparr>
                 else \<lparr>exit_status = 1, printed = stdout r @ [FailureBanner],
                       written = sql_file r\<rparr>))"

section \<open>The vocabulary of the specification\<close>

text \<open>
  The specification speaks of a record (a JSON object), of its cleaned name, of its
  coordinates "coerced to floating point, defaulting absent values to 0", of
  "nonzero, well-formed coordinates" and of the rectangle
  \<open>[5.5, 10.0] \<times> [79.0, 82.0]\<close>. These definitions follow its words; the theorems below
  compare them with what the script computes.
\<close>

fun is_object :: "json \<Rightarrow> bool" where
  "is_object (JDict kvs) = True"
| "is_object _ = False"

definition spec_field :: "json \<Rightarrow> string \<Rightarrow> json option" where
  "spec_field city k = (case city of JDict kvs \<Rightarrow> map_of kvs k | _ \<Rightarrow> None)"

definition spec_name :: "runtime \<Rightarrow> json \<Rightarrow> string option" where
  "spec_name rt city =
     (case spec_field city ''name_en'' of None \<Rightarrow> None | Some v \<Rightarrow> clean_value rt v)"

definition spec_coord :: "runtime \<Rightarrow> json \<Rightarrow> string \<Rightarrow> pyfloat option" where
  "spec_coord rt city k =
     (case py_float rt (case spec_field city k of None \<Rightarrow> JInt 0 | Some v \<Rightarrow> v) of
        Inl e \<Rightarrow> None
      | Inr x \<Rightarrow> Some x)"

definition spec_coords :: "runtime \<Rightarrow> json \<Rightarrow> (pyfloat \<times> pyfloat) option" where
  "spec_coords rt city =
     (if is_object city then
        (case (spec_coord rt city ''latitude'', spec_coord rt city ''longitude'') of
           (Some la, Some lo) \<Rightarrow> Some (la, lo)
         | _ \<Rightarrow> None)
      else None)"

definition spec_accepted :: "runtime \<Rightarrow> json \<Rightarrow> bool" where
  "spec_accepted rt city =
     (case spec_coords rt city of
        None \<Rightarrow> False
      | Some (la, lo) \<Rightarrow> la \<noteq> Finite 0 \<and> lo \<noteq> Finite 0)"

definition spec_in_bounds :: "pyfloat \<Rightarrow> pyfloat \<Rightarrow> bool" where
  "spec_in_bounds la lo =
     (float_le (Finite (11 / 2)) la \<and> float_le la (Finite 10) \<and>
      float_le (Finite 79) lo \<and> float_le lo (Finite 82))"

definition spec_tuple :: "runtime \<Rightarrow> json \<Rightarrow> string" where
  "spec_tuple rt city =
     (case spec_coords rt city of
        None \<Rightarrow> []
      | Some (la, lo) \<Rightarrow> city_tuple rt (spec_name rt city) la lo)"

text \<open>Doubling every apostrophe of a text.\<close>

definition double_quotes :: "string \<Rightarrow> string" where
  "double_quotes s = concat (map (\<lambda>c. if c = CHR 0x27 then [c, c] else [c]) s)"

text \<open>
  The head of the output file as the specification describes it: the comment block
  with the number of input records and the "timestamp", the \<^verbatim>\<open>DELETE\<close> statement and
  the head of the \<^verbatim>\<open>INSERT\<close> statement up to \<^verbatim>\<open>VALUES\<close>.
\<close>

definition header_before_timestamp :: "string \<Rightarrow> string" where
  "header_before_timestamp total_cities =
     ''-- Migration: Import Complete Sri Lankan Cities Dataset\<newline>'' @
     ''-- Source: https://github.com/SKIDDOW/SriLankaCitiesDatabase\<newline>'' @
     ''-- Total Cities: '' @ total_cities @ ''\<newline>'' @
     ''-- Generated: ''"

definition header_after_timestamp :: string where
  "header_after_timestamp =
     ''\<newline>'' @
     ''\<newline>'' @
     ''-- Delete existing Sri Lankan cities to avoid duplicates\<newline>'' @
     ''DELETE FROM cities WHERE country = 'Sri Lanka';\<newline>'' @
     ''\<newline>'' @
     ''-- Insert complete Sri Lankan cities dataset\<newline>'' @
     ''INSERT INTO cities (\<newline>'' @
     ''    name,\<newline>'' @
     ''    country,\<newline>'' @
     ''    state,\<newline>'' @
     ''    latitude,\<newline>'' @
     ''    longitude,\<newline>'' @
     ''    population,\<newline>'' @
     ''    is_major_city,\<newline>'' @
     ''    timezone\<newline>'' @
     '') VALUES\<newline>''"

definition header_text :: "string \<Rightarrow> string \<Rightarrow> string" where
  "header_text total_cities timestamp =
     header_before_timestamp total_cities @ timestamp @ header_after_timestamp"

subsection \<open>Concrete inputs\<close>

text \<open>
  A finite extract of the interpreter, for the concrete instances of the theorems:
  \<^verbatim>\<open>float("7.5")\<close> is \<open>7.5\<close>, \<^verbatim>\<open>float("abc")\<close> raises \<^verbatim>\<open>ValueError\<close>, and the doubles
  \<open>7.5\<close>, \<open>80.25\<close> and \<open>12.5\<close> print as \<^verbatim>\<open>7.5\<close>, \<^verbatim>\<open>80.25\<close> and \<^verbatim>\<open>12.5\<close>. Outside these
  entries the table is a placeholder, and no instance below reads it there.
\<close>

definition cpython_sample :: runtime where
  "cpython_sample =
     \<lparr>float_of_str = (\<lambda>s. if s = ''7.5'' then Some (Finite (15 / 2)) else None),
      repr_float =
        (\<lambda>f. if f = Finite (15 / 2) then ''7.5''
             else if f = Finite (321 / 4) then ''80.25''
             else if f = Finite (25 / 2) then ''12.5''
             else ''?''),
      str_container = (\<lambda>v. ''?'')\<rparr>"

definition at_7_5_80_25 :: "(string \<times> json) list" where
  "at_7_5_80_25 =
     [(''latitude'', JFloat (Finite (15 / 2))), (''longitude'', JFloat (Finite (321 / 4)))]"

definition kandy :: json where
  "kandy = JDict ((''id'', JInt 3) # (''name_en'', JStr ''Kandy'') # at_7_5_80_25)"

definition nameless :: json where
  "nameless = JDict at_7_5_80_25"

definition nowhere :: json where
  "nowhere = JDict [(''name_en'', JStr ''Nowhere''), (''latitude'', JInt 0), (''longitude'', JInt 0)]"

definition malformed :: json where
  "malformed = JDict [(''name_en'', JStr ''Galle''), (''latitude'', JStr ''abc''),
                      (''longitude'', JFloat (Finite (321 / 4)))]"

definition obrien :: json where
  "obrien = JDict ((''name_en'', JStr ''O'Brien'') # at_7_5_80_25)"

definition far_north :: json where
  "far_north = JDict [(''name_en'', JStr ''Kandy''), (''latitude'', JFloat (Finite (25 / 2))),
                      (''longitude'', JFloat (Finite (321 / 4)))]"

definition sample_env :: "json list \<Rightarrow> int \<Rightarrow> env" where
  "sample_env cities status =
     \<lparr>json_exists = True, mkdir_result = None, load_result = Inr cities,
      date_status = status, write_result = None\<rparr>"

section \<open>Facts about the built-ins\<close>


lemma float_eq_zero: "float_eq x (Finite 0) \<longleftrightarrow> x = Finite 0"
  by (cases x) auto

lemma py_replace_quote: "py_replace [CHR 0x27] [CHR 0x27, CHR 0x27] s = double_quotes s"
proof (induction s)
  case Nil
  show ?case by (simp add: py_replace.simps double_quotes_def)
next
  case (Cons c s)
  show ?case
  proof (cases "c = CHR 0x27")
    case True
    then show ?thesis
      using Cons.IH by (subst py_replace.simps) (simp add: double_quotes_def)
  next
    case False
    then show ?thesis
      using Cons.IH by (subst py_replace.simps) (simp add: double_quotes_def)
  qed
qed

lemma clean_value_eq:
  "clean_value rt v =
     (if v = JNull \<or> v = JStr ''NULL'' \<or> v = JStr [] then None
      else Some (double_quotes (py_str rt v)))"
  by (simp add: clean_value_def py_replace_quote)

lemma py_format_template:
  "py_format sql_template [(''total_cities'', a), (''timestamp'', b)] = Inr (header_text a b)"
  by (simp add: sql_template_def header_text_def header_before_timestamp_def
      header_after_timestamp_def)

section \<open>One record\<close>

lemma py_get_object:
  "py_get (JDict kvs) k d = Inr (case spec_field (JDict kvs) k of None \<Rightarrow> d | Some v \<Rightarrow> v)"
  by (simp add: spec_field_def)

lemma clean_value_JNull: "clean_value rt JNull = None"
  by (simp add: clean_value_def)

lemma process_city_non_object: "\<not> is_object city \<Longrightarrow> process_city rt city = Inl AttributeError"
  by (cases city) (simp_all add: process_city_def)

lemma process_city_accepted:
  assumes "spec_coords rt city = Some (la, lo)" and "la \<noteq> Finite 0" and "lo \<noteq> Finite 0"
  shows "process_city rt city =
           Inr (Some (city_tuple rt (spec_name rt city) la lo),
                if spec_in_bounds la lo then [] else [Warning (spec_name rt city) la lo])"
  using assms
  by (cases city)
    (auto simp: process_city_def spec_coords_def spec_coord_def spec_name_def spec_field_def
      spec_in_bounds_def clean_value_JNull float_eq_zero Let_def
      split: option.splits sum.splits if_splits)

lemma process_city_skipped:
  assumes "spec_coords rt city = Some (la, lo)" and "la = Finite 0 \<or> lo = Finite 0"
  shows "process_city rt city = Inr (None, [Skipping (spec_name rt city)])"
  using assms
  by (cases city)
    (auto simp: process_city_def spec_coords_def spec_coord_def spec_name_def spec_field_def
      clean_value_JNull float_eq_zero Let_def
      split: option.splits sum.splits if_splits)

lemma process_city_raises:
  assumes "is_object city" and "spec_coords rt city = None"
  shows "\<exists>e. process_city rt city = Inl e"
  using assms
  by (cases city)
    (auto simp: process_city_def spec_coords_def spec_coord_def spec_field_def Let_def
      split: option.splits sum.splits if_splits)


section \<open>The loop\<close>

lemma py_get_id_object: "is_object city \<Longrightarrow> \<exists>i. py_get city ''id'' (JStr ''unknown'') = Inr i"
  by (cases city) simp_all

lemma spec_tuple_accepted:
  "spec_coords rt city = Some (la, lo) \<Longrightarrow> spec_tuple rt city = city_tuple rt (spec_name rt city) la lo"
  by (simp add: spec_tuple_def)

lemma process_cities_step:
  assumes "is_object city"
  shows "fst (process_cities rt (city # rest) vs out) =
           fst (process_cities rt rest
                  (if spec_accepted rt city then vs @ [spec_tuple rt city] else vs)
                  (out @ snd (process_cities rt [city] [] [])))"
proof (cases "spec_coords rt city")
  case None
  then obtain e where e: "process_city rt city = Inl e"
    using process_city_raises [OF assms] by blast
  obtain i where i: "py_get city ''id'' (JStr ''unknown'') = Inr i"
    using py_get_id_object [OF assms] by blast
  show ?thesis using None e i by (simp add: spec_accepted_def)
next
  case (Some p)
  obtain la lo where p: "p = (la, lo)" by (cases p)
  show ?thesis
  proof (cases "la = Finite 0 \<or> lo = Finite 0")
    case True
    have "process_city rt city = Inr (None, [Skipping (spec_name rt city)])"
      using process_city_skipped [of rt city la lo] Some p True by simp
    then show ?thesis using Some p True by (auto simp: spec_accepted_def)
  next
    case False
    have "process_city rt city =
            Inr (Some (city_tuple rt (spec_name rt city) la lo),
                 if spec_in_bounds la lo then [] else [Warning (spec_name rt city) la lo])"
      using process_city_accepted [of rt city la lo] Some p False by simp
    then show ?thesis using Some p False by (simp add: spec_accepted_def spec_tuple_def)
  qed
qed

lemma process_cities_values:
  "list_all is_object cities \<Longrightarrow>
   fst (process_cities rt cities vs out) =
     Inr (vs @ map (spec_tuple rt) (filter (spec_accepted rt) cities))"
proof (induction cities arbitrary: vs out)
  case Nil
  show ?case by simp
next
  case (Cons city rest)
  then have obj: "is_object city" and rest: "list_all is_object rest" by simp_all
  show ?case
    unfolding process_cities_step [OF obj] using Cons.IH [OF rest] by simp
qed

lemma process_cities_abort:
  "\<not> list_all is_object cities \<Longrightarrow> fst (process_cities rt cities vs out) = Inl AttributeError"
proof (induction cities arbitrary: vs out)
  case Nil
  then show ?case by simp
next
  case (Cons city rest)
  show ?case
  proof (cases "is_object city")
    case True
    then have "\<not> list_all is_object rest" using Cons.prems by simp
    then show ?thesis unfolding process_cities_step [OF True] using Cons.IH by simp
  next
    case False
    then have "process_city rt city = Inl AttributeError"
      by (rule process_city_non_object)
    moreover have "py_get city ''id'' (JStr ''unknown'') = Inl AttributeError"
      using False by (cases city) simp_all
    ultimately show ?thesis by simp
  qed
qed


section \<open>The generated file\<close>

lemma generate_loaded:
  assumes "load_result env = Inr cities"
  shows "generate_sql_migration rt env =
     (case process_cities rt cities [] [ReadingFrom, Loaded (length cities)] of
        (Inl e, out) \<Rightarrow> \<lparr>retval = Inl e, stdout = out, sql_file = None\<rparr>
      | (Inr values, out) \<Rightarrow>
          (case write_result env of
             None \<Rightarrow>
               \<lparr>retval = Inr True, stdout = out @ [Generated, Processed (length values)],
                sql_file =
                  Some (header_text (str_nat (length cities)) (str_int (date_status env)) @
                        py_join '',\<newline>'' values @ on_conflict_clause @
                        verification_queries)\<rparr>
           | Some e \<Rightarrow>
               \<lparr>retval = Inr False, stdout = out @ [ErrorWriting e], sql_file = None\<rparr>))"
  using assms
  by (simp add: generate_sql_migration_def py_format_template Let_def
      split: prod.splits sum.splits option.splits)

lemma generate_objects:
  assumes "load_result env = Inr cities" and "list_all is_object cities"
    and "write_result env = None"
  shows "retval (generate_sql_migration rt env) = Inr True"
    and "sql_file (generate_sql_migration rt env) =
           Some (header_text (str_nat (length cities)) (str_int (date_status env)) @
                 py_join '',\<newline>'' (map (spec_tuple rt) (filter (spec_accepted rt) cities)) @
                 on_conflict_clause @ verification_queries)"
  using process_cities_values [OF assms(2), of rt "[]" "[ReadingFrom, Loaded (length cities)]"]
  by (auto simp: generate_loaded [OF assms(1)] assms(3) split: prod.splits sum.splits)

lemma generate_aborted:
  assumes "load_result env = Inr cities" and "\<not> list_all is_object cities"
  shows "sql_file (generate_sql_migration rt env) = None"
    and "retval (generate_sql_migration rt env) = Inl AttributeError"
  using process_cities_abort [OF assms(2), of rt "[]" "[ReadingFrom, Loaded (length cities)]"]
  by (auto simp: generate_loaded [OF assms(1)] split: prod.splits sum.splits)

lemma generate_not_loaded:
  "load_result env = Inl e \<Longrightarrow> sql_file (generate_sql_migration rt env) = None"
  by (simp add: generate_sql_migration_def)

section \<open>The tuple of a record\<close>

lemma str_int_100000: "str_int 100000 = ''100000''"
  by (simp add: str_int_def str_nat.simps digit_char_def)

lemma lower_str_bool: "py_lower (str_bool b) = (if b then ''true'' else ''false'')"
  by (simp add: py_lower_def str_bool_def lower_char_def)

lemma empty_not_major: "[] \<notin> major_cities"
  by (simp add: major_cities_def)

lemma city_tuple_eq:
  "city_tuple rt name_en la lo =
     ''('' @ [CHR 0x27] @ format_name name_en @ ''', 'Sri Lanka', 'Sri Lanka', '' @
     repr_float rt la @ '', '' @ repr_float rt lo @ '', '' @
     (if name_en \<in> Some ` major_cities then ''100000, true'' else ''NULL, false'') @
     '', 'Asia/Colombo')''"
proof (cases name_en)
  case None
  then show ?thesis by (simp add: city_tuple_def lower_str_bool image_iff)
next
  case (Some s)
  then show ?thesis
    using empty_not_major
    by (cases "s \<in> major_cities")
      (auto simp: city_tuple_def lower_str_bool str_int_100000 image_iff)
qed

lemma card_major_cities: "card major_cities = 21"
  by (simp add: major_cities_def)

lemma process_city_Some_iff:
  "(\<exists>ds. process_city rt city = Inr (Some value, ds)) \<longleftrightarrow>
   spec_accepted rt city \<and> value = spec_tuple rt city"
proof (cases "is_object city")
  case False
  then show ?thesis
    by (simp add: process_city_non_object spec_accepted_def spec_coords_def)
next
  case True
  show ?thesis
  proof (cases "spec_coords rt city")
    case None
    then show ?thesis
      using process_city_raises [OF True None, of ] by (auto simp: spec_accepted_def)
  next
    case (Some p)
    obtain la lo where p: "p = (la, lo)" by (cases p)
    show ?thesis
    proof (cases "la = Finite 0 \<or> lo = Finite 0")
      case z: True
      show ?thesis
        using process_city_skipped [of rt city la lo] Some p z
        by (auto simp: spec_accepted_def)
    next
      case nz: False
      show ?thesis
        using process_city_accepted [of rt city la lo] Some p nz
        by (auto simp: spec_accepted_def spec_tuple_def)
    qed
  qed
qed

lemma generate_sql_file:
  "sql_file (generate_sql_migration rt env) =
     (case load_result env of
        Inl e \<Rightarrow> None
      | Inr cities \<Rightarrow>
          if list_all is_object cities \<and> write_result env = None
          then Some (header_text (str_nat (length cities)) (str_int (date_status env)) @
                     py_join '',\<newline>'' (map (spec_tuple rt) (filter (spec_accepted rt) cities)) @
                     on_conflict_clause @ verification_queries)
          else None)"
proof (cases "load_result env")
  case (Inl e)
  then show ?thesis by (simp add: generate_not_loaded)
next
  case (Inr cities)
  show ?thesis
  proof (cases "list_all is_object cities")
    case False
    then show ?thesis using Inr generate_aborted(1) [OF Inr False] by simp
  next
    case True
    show ?thesis
    proof (cases "write_result env")
      case None
      then show ?thesis using Inr True generate_objects(2) [OF Inr True None] by simp
    next
      case (Some e)
      then show ?thesis
        using Inr True by (auto simp: generate_loaded [OF Inr] split: prod.splits sum.splits)
    qed
  qed
qed







section \<open>The claims\<close>

lemmas example_defs =
  kandy_def nameless_def nowhere_def malformed_def obrien_def far_north_def at_7_5_80_25_def
  cpython_sample_def sample_env_def

lemmas record_simps =
  process_city_def clean_value_eq double_quotes_def city_tuple_eq format_name_def
  float_eq_zero major_cities_def

text \<open>
  Claim C1 says that a record whose \<open>name_en\<close> is absent, \<^verbatim>\<open>"NULL"\<close> or empty gets
  the unquoted SQL \<^verbatim>\<open>NULL\<close> as its name. The script does not do that: \<open>clean_value\<close>
  returns \<^verbatim>\<open>None\<close>, and line 88 puts the field between apostrophes, so the tuple
  starts with the quoted text \<^verbatim>\<open>'None'\<close>. The population field of the same line
  is written \<^verbatim>\<open>population or 'NULL'\<close> and does give \<^verbatim>\<open>NULL\<close>. The theorem
  evaluates the body of the loop on four such records (key absent, JSON null,
  \<^verbatim>\<open>"NULL"\<close>, empty string) at latitude 7.5 and longitude 80.25.
\<close>

theorem C1_absent_name_is_quoted_None:
  "map (process_city rt)
     [nameless,
      JDict ((''name_en'', JNull) # at_7_5_80_25),
      JDict ((''name_en'', JStr ''NULL'') # at_7_5_80_25),
      JDict ((''name_en'', JStr []) # at_7_5_80_25)] =
   replicate 4
     (Inr (Some (''('None', 'Sri Lanka', 'Sri Lanka', '' @ repr_float rt (Finite (15 / 2)) @
                 '', '' @ repr_float rt (Finite (321 / 4)) @
                 '', NULL, false, 'Asia/Colombo')''),
           []))"
  by (simp add: example_defs record_simps numeral_eq_Suc)



text \<open>
  Claim C3: for every accepted record (the body of the loop appends a tuple), the
  tuple carries \<^verbatim>\<open>100000, true\<close> in its population and major-city fields exactly when
  the cleaned name is a member of the set of 21 names, and \<^verbatim>\<open>NULL, false\<close> for every
  other name, an absent one included. Membership is equality of strings, so it is exact
  and case-sensitive.
\<close>

theorem C3_major_city_flag:
  assumes "process_city rt city = Inr (Some value, ds)"
  shows "card major_cities = 21 \<and>
         (\<exists>la lo. spec_coords rt city = Some (la, lo) \<and>
            value =
              ''('' @ [CHR 0x27] @ format_name (spec_name rt city) @
              ''', 'Sri Lanka', 'Sri Lanka', '' @
              repr_float rt la @ '', '' @ repr_float rt lo @ '', '' @
              (if spec_name rt city \<in> Some ` major_cities then ''100000, true''
               else ''NULL, false'') @
              '', 'Asia/Colombo')'')"
proof -
  have acc: "spec_accepted rt city" and v: "value = spec_tuple rt city"
    using assms process_city_Some_iff [of rt city "value"] by blast+
  from acc obtain la lo where c: "spec_coords rt city = Some (la, lo)"
    by (auto simp: spec_accepted_def split: option.splits)
  show ?thesis
    using c v by (simp add: card_major_cities spec_tuple_def city_tuple_eq)
qed

text \<open>Instances of C3: \<^verbatim>\<open>Kandy\<close> is a major city, \<^verbatim>\<open>kandy\<close> is not.\<close>

theorem C3_major_city_flag_witness:
  "process_city cpython_sample kandy =
     Inr (Some ''('Kandy', 'Sri Lanka', 'Sri Lanka', 7.5, 80.25, 100000, true, 'Asia/Colombo')'', []) \<and>
   process_city cpython_sample (JDict ((''name_en'', JStr ''kandy'') # at_7_5_80_25)) =
     Inr (Some ''('kandy', 'Sri Lanka', 'Sri Lanka', 7.5, 80.25, NULL, false, 'Asia/Colombo')'', []) \<and>
   card major_cities = 21"
proof -
  have k: "process_city cpython_sample kandy =
     Inr (Some ''('Kandy', 'Sri Lanka', 'Sri Lanka', 7.5, 80.25, 100000, true, 'Asia/Colombo')'', [])"
    by (simp add: example_defs record_simps)
  have l: "process_city cpython_sample (JDict ((''name_en'', JStr ''kandy'') # at_7_5_80_25)) =
     Inr (Some ''('kandy', 'Sri Lanka', 'Sri Lanka', 7.5, 80.25, NULL, false, 'Asia/Colombo')'', [])"
    by (simp add: example_defs record_simps)
  show ?thesis using C3_major_city_flag [OF k] k l by simp
qed

text \<open>
  Claim C7: whenever \<open>clean_value\<close> does not return \<^verbatim>\<open>None\<close>, it returns the value
  coerced to text with every apostrophe doubled (the number of apostrophes doubles and
  the other characters are untouched, in order); the name \<^verbatim>\<open>O'Brien\<close> becomes
  \<^verbatim>\<open>O''Brien\<close>, and that is the text between the apostrophes of the tuple.
\<close>

theorem C7_quotes_doubled:
  "(clean_value rt v \<noteq> None \<longrightarrow> clean_value rt v = Some (double_quotes (py_str rt v))) \<and>
   (\<forall>s. length (filter (\<lambda>c. c = CHR 0x27) (double_quotes s)) =
          2 * length (filter (\<lambda>c. c = CHR 0x27) s) \<and>
        filter (\<lambda>c. c \<noteq> CHR 0x27) (double_quotes s) = filter (\<lambda>c. c \<noteq> CHR 0x27) s) \<and>
   clean_value rt (JStr ''O'Brien'') = Some (''O'' @ [CHR 0x27, CHR 0x27] @ ''Brien'') \<and>
   process_city rt obrien =
     Inr (Some (''('O'' @ [CHR 0x27, CHR 0x27] @ ''Brien', 'Sri Lanka', 'Sri Lanka', '' @
                repr_float rt (Finite (15 / 2)) @ '', '' @ repr_float rt (Finite (321 / 4)) @
                '', NULL, false, 'Asia/Colombo')''),
          [])"
proof -
  have a: "clean_value rt v \<noteq> None \<longrightarrow> clean_value rt v = Some (double_quotes (py_str rt v))"
    by (simp add: clean_value_eq)
  have b: "length (filter (\<lambda>c. c = CHR 0x27) (double_quotes s)) =
          2 * length (filter (\<lambda>c. c = CHR 0x27) s) \<and>
        filter (\<lambda>c. c \<noteq> CHR 0x27) (double_quotes s) = filter (\<lambda>c. c \<noteq> CHR 0x27) s" for s
    by (induction s) (simp_all add: double_quotes_def)
  have c: "clean_value rt (JStr ''O'Brien'') = Some (''O'' @ [CHR 0x27, CHR 0x27] @ ''Brien'')"
    by (simp add: clean_value_eq double_quotes_def)
  have d: "process_city rt obrien =
     Inr (Some (''('O'' @ [CHR 0x27, CHR 0x27] @ ''Brien', 'Sri Lanka', 'Sri Lanka', '' @
                repr_float rt (Finite (15 / 2)) @ '', '' @ repr_float rt (Finite (321 / 4)) @
                '', NULL, false, 'Asia/Colombo')''),
          [])"
    by (simp add: example_defs record_simps)
  show ?thesis using a b c d by blast
qed

text \<open>Instances of C7: a name with an apostrophe, and a number as a name.\<close>

theorem C7_quotes_doubled_witness:
  "clean_value cpython_sample (JStr ''O'Brien'') \<noteq> None \<and>
   clean_value cpython_sample (JStr ''O'Brien'') = Some (''O'' @ [CHR 0x27, CHR 0x27] @ ''Brien'') \<and>
   clean_value cpython_sample (JInt 42) = Some ''42''"
proof -
  have n: "clean_value cpython_sample (JStr ''O'Brien'') \<noteq> None"
    by (simp add: clean_value_eq)
  have i: "clean_value cpython_sample (JInt 42) = Some ''42''"
    by (simp add: clean_value_eq double_quotes_def str_int_def str_nat.simps digit_char_def)
  have t: "clean_value cpython_sample (JStr ''O'Brien'') =
             Some (double_quotes (py_str cpython_sample (JStr ''O'Brien'')))"
    using C7_quotes_doubled [of cpython_sample "JStr ''O'Brien''"] n by blast
  have "double_quotes ''O'Brien'' = ''O'' @ [CHR 0x27, CHR 0x27] @ ''Brien''"
    by (simp add: double_quotes_def)
  then show ?thesis using t n i by simp
qed



text \<open>
  Claim C5 says that every exception raised while one record is processed is caught,
  reported with the record's id, and followed by the rest of the batch. That fails for a
  record that is not a JSON object: \<^verbatim>\<open>city.get('name_en')\<close> raises \<^verbatim>\<open>AttributeError\<close>,
  which line 91 catches, and the handler of line 92 calls \<^verbatim>\<open>city.get('id', 'unknown')\<close>
  on the same value, which raises again, outside the \<^verbatim>\<open>try\<close>. The theorem evaluates the
  batch \<^verbatim>\<open>[5, {"id": 3, "name_en": "Kandy", "latitude": 7.5, "longitude": 80.25}]\<close>:
  the loop ends with the exception, nothing is printed for the first record, the valid
  second record is never processed, no file is written and the exit status is 1.
\<close>

theorem C5_non_object_record_aborts_batch:
  "process_cities rt [JInt 5, kandy] [] [] = (Inl AttributeError, []) \<and>
   generate_sql_migration rt (sample_env [JInt 5, kandy] 0) =
     \<lparr>retval = Inl AttributeError, stdout = [ReadingFrom, Loaded 2], sql_file = None\<rparr> \<and>
   main rt (sample_env [JInt 5, kandy] 0) =
     \<lparr>exit_status = 1, printed = [ReadingFrom, Loaded 2], written = None\<rparr>"
proof -
  have p: "process_cities rt [JInt 5, kandy] [] out = (Inl AttributeError, out)" for out
    by (simp add: process_city_def)
  have l: "load_result (sample_env [JInt 5, kandy] 0) = Inr [JInt 5, kandy]"
    by (simp add: sample_env_def)
  have g: "generate_sql_migration rt (sample_env [JInt 5, kandy] 0) =
     \<lparr>retval = Inl AttributeError, stdout = [ReadingFrom, Loaded 2], sql_file = None\<rparr>"
    unfolding generate_loaded [OF l] p by simp
  have m: "main rt (sample_env [JInt 5, kandy] 0) =
     \<lparr>exit_status = 1, printed = [ReadingFrom, Loaded 2], written = None\<rparr>"
    unfolding main_def g by (simp add: sample_env_def)
  show ?thesis using p g m by simp
qed

text \<open>
  For a record that is an object the handler does what the claim says: the exception is
  reported with the record's id, or with \<^verbatim>\<open>unknown\<close>, and the loop goes on.
\<close>

lemma process_cities_object_error_caught:
  assumes "is_object city" and "process_city rt city = Inl e"
  shows "process_cities rt (city # rest) vs out =
           process_cities rt rest vs
             (out @ [ErrorProcessing
                       (case spec_field city ''id'' of None \<Rightarrow> JStr ''unknown'' | Some i \<Rightarrow> i) e])"
  using assms by (cases city) (simp_all add: spec_field_def)







text \<open>
  Claim C9: in every file the script writes, the field after \<^verbatim>\<open>-- Generated: \<close> is the
  integer that \<^verbatim>\<open>os.system("date")\<close> returned, printed in decimal, and not the text that
  the command prints; when the command succeeds (status 0) the line reads
  \<^verbatim>\<open>-- Generated: 0\<close>.
\<close>

theorem C9_generated_field_is_exit_status:
  assumes "load_result env = Inr cities"
    and "sql_file (generate_sql_migration rt env) = Some sql"
  shows "prefix (''-- Migration: Import Complete Sri Lankan Cities Dataset\<newline>'' @
                 ''-- Source: https://github.com/SKIDDOW/SriLankaCitiesDatabase\<newline>'' @
                 ''-- Total Cities: '' @ str_nat (length cities) @ ''\<newline>'' @
                 ''-- Generated: '' @ str_int (date_status env) @ ''\<newline>'') sql \<and>
         (date_status env = 0 \<longrightarrow>
            prefix (''-- Migration: Import Complete Sri Lankan Cities Dataset\<newline>'' @
                    ''-- Source: https://github.com/SKIDDOW/SriLankaCitiesDatabase\<newline>'' @
                    ''-- Total Cities: '' @ str_nat (length cities) @ ''\<newline>'' @
                    ''-- Generated: 0\<newline>'') sql)"
proof -
  have z: "str_int 0 = ''0''"
    by (simp add: str_int_def str_nat.simps digit_char_def)
  have "sql = header_text (str_nat (length cities)) (str_int (date_status env)) @
              py_join '',\<newline>'' (map (spec_tuple rt) (filter (spec_accepted rt) cities)) @
              on_conflict_clause @ verification_queries"
    using assms by (simp add: generate_sql_file split: if_splits)
  then have p: "prefix (''-- Migration: Import Complete Sri Lankan Cities Dataset\<newline>'' @
                 ''-- Source: https://github.com/SKIDDOW/SriLankaCitiesDatabase\<newline>'' @
                 ''-- Total Cities: '' @ str_nat (length cities) @ ''\<newline>'' @
                 ''-- Generated: '' @ str_int (date_status env) @ ''\<newline>'') sql"
    by (simp add: header_text_def header_before_timestamp_def header_after_timestamp_def)
  show ?thesis
  proof (cases "date_status env = 0")
    case True
    then show ?thesis using p z by simp
  next
    case False
    then show ?thesis using p by simp
  qed
qed

text \<open>
  An instance of C9: the file for the empty array when the command returns 0.
\<close>

theorem C9_generated_field_is_exit_status_witness:
  "load_result (sample_env [] 0) = Inr [] \<and>
   (\<exists>sql. sql_file (generate_sql_migration cpython_sample (sample_env [] 0)) = Some sql \<and>
      prefix (''-- Migration: Import Complete Sri Lankan Cities Dataset\<newline>'' @
              ''-- Source: https://github.com/SKIDDOW/SriLankaCitiesDatabase\<newline>'' @
              ''-- Total Cities: 0\<newline>'' @
              ''-- Generated: 0\<newline>'') sql)"
proof -
  have l: "load_result (sample_env [] 0) = Inr []"
    by (simp add: sample_env_def)
  obtain sql where s: "sql_file (generate_sql_migration cpython_sample (sample_env [] 0)) = Some sql"
    by (simp add: generate_sql_file sample_env_def)
  have d: "date_status (sample_env [] 0) = 0"
    by (simp add: sample_env_def)
  have n: "str_nat (length ([] :: json list)) = ''0''"
    by (simp add: str_nat.simps digit_char_def)
  show ?thesis
    using C9_generated_field_is_exit_status [OF l s] l s d n by simp
qed



end
